theory Spec2Isabelle
  imports Complex_Main
begin

section \<open>The brain viewer of Code.py\<close>

text \<open>
  The class \<open>BrainViewer\<close> of \<open>Code.py\<close> keeps a loaded volume, three slice variables with
  their text entries, two display variables, the image and crosshair artists of three
  views, and reacts to widget and mouse events. The model below passes the viewer as an
  explicit state. Exceptions are values: an operation returns the exception it raised, if
  any, together with the state as the attribute writes made before the raise left it (the
  event loop reports an exception of a callback and carries on).

  The floating-point inputs (voxel intensities, the two display variables, the data
  coordinates of a mouse event) are finite binary64 numbers, written as the real numbers
  they denote; infinite and not-a-number inputs are outside the model. The one place
  where the program does arithmetic that rounds or overflows, the display range, is
  computed in binary64 arithmetic as defined below. The file name, affine, header,
  logger, figure titles, the unused \<open>view_states\<close> and the canvas redraws take no part in
  the operations below and are left out.
\<close>

subsection \<open>Values\<close>

datatype plane = Axial | Sagittal | Coronal

datatype error = ValueError | IndexError | AttributeError

text \<open>A volume is the array \<open>self.data\<close>: its shape and its value at each index.\<close>

record volume =
  shape :: "nat \<times> nat \<times> nat"
  voxel :: "nat \<Rightarrow> nat \<Rightarrow> nat \<Rightarrow> real"

text \<open>\<open>data.shape[i]\<close> for \<open>i\<close> among 0, 1, 2.\<close>

definition shape_at :: "volume \<Rightarrow> nat \<Rightarrow> int" where
  "shape_at v i =
     (case shape v of (nx, ny, nz) \<Rightarrow>
        if i = 0 then int nx else if i = 1 then int ny else int nz)"

text \<open>The dictionary \<open>{'sagittal': 0, 'coronal': 1, 'axial': 2}\<close>.\<close>

fun dim_index :: "plane \<Rightarrow> nat" where
  "dim_index Sagittal = 0"
| "dim_index Coronal = 1"
| "dim_index Axial = 2"

text \<open>All values of the array, in index order.\<close>

definition voxels :: "volume \<Rightarrow> real list" where
  "voxels v =
     (case shape v of (nx, ny, nz) \<Rightarrow>
        concat (map (\<lambda>x. concat (map (\<lambda>y. map (\<lambda>z. voxel v x y z) [0..<nz]) [0..<ny]))
          [0..<nx]))"

text \<open>\<open>np.min\<close> and \<open>np.max\<close> raise ValueError on an array without elements.\<close>

definition np_min :: "volume \<Rightarrow> error + real" where
  "np_min v = (case voxels v of [] \<Rightarrow> Inl ValueError | a # as \<Rightarrow> Inr (fold min as a))"

definition np_max :: "volume \<Rightarrow> error + real" where
  "np_max v = (case voxels v of [] \<Rightarrow> Inl ValueError | a # as \<Rightarrow> Inr (fold max as a))"

text \<open>
  An integer index into an axis of length \<open>n\<close>: negative indices count from the end,
  anything outside \<open>-n .. n-1\<close> raises IndexError.
\<close>

definition py_index :: "nat \<Rightarrow> int \<Rightarrow> error + nat" where
  "py_index n i =
     (if 0 \<le> i \<and> i < int n then Inr (nat i)
      else if - int n \<le> i \<and> i < 0 then Inr (nat (int n + i))
      else Inl IndexError)"

text \<open>\<open>data[:, :, z]\<close>, \<open>data[x, :, :]\<close> and \<open>data[:, y, :]\<close> as lists of rows.\<close>

definition slice_axial :: "volume \<Rightarrow> int \<Rightarrow> error + real list list" where
  "slice_axial v z =
     (case shape v of (nx, ny, nz) \<Rightarrow>
        (case py_index nz z of
           Inl e \<Rightarrow> Inl e
         | Inr k \<Rightarrow> Inr (map (\<lambda>x. map (\<lambda>y. voxel v x y k) [0..<ny]) [0..<nx])))"

definition slice_sagittal :: "volume \<Rightarrow> int \<Rightarrow> error + real list list" where
  "slice_sagittal v x =
     (case shape v of (nx, ny, nz) \<Rightarrow>
        (case py_index nx x of
           Inl e \<Rightarrow> Inl e
         | Inr k \<Rightarrow> Inr (map (\<lambda>y. map (\<lambda>z. voxel v k y z) [0..<nz]) [0..<ny])))"

definition slice_coronal :: "volume \<Rightarrow> int \<Rightarrow> error + real list list" where
  "slice_coronal v y =
     (case shape v of (nx, ny, nz) \<Rightarrow>
        (case py_index ny y of
           Inl e \<Rightarrow> Inl e
         | Inr k \<Rightarrow> Inr (map (\<lambda>x. map (\<lambda>z. voxel v x k z) [0..<nz]) [0..<nx])))"

text \<open>
  \<open>np.rot90\<close> turns the rows of a matrix a quarter turn counterclockwise: row \<open>i\<close> of the
  result is column \<open>C - 1 - i\<close> of the argument. \<open>np.flip(_, axis=1)\<close> reverses every row.
\<close>

definition np_rot90 :: "'a list list \<Rightarrow> 'a list list" where
  "np_rot90 m = rev (transpose m)"

definition np_flip1 :: "'a list list \<Rightarrow> 'a list list" where
  "np_flip1 m = map rev m"

text \<open>\<open>np.clip(a, lo, hi)\<close> is \<open>minimum(maximum(a, lo), hi)\<close>; \<open>int\<close> of a float truncates.\<close>

definition np_clip :: "real \<Rightarrow> int \<Rightarrow> int \<Rightarrow> real" where
  "np_clip a lo hi = min (max a (of_int lo)) (of_int hi)"

definition int_of_float :: "real \<Rightarrow> int" where
  "int_of_float r = (if 0 \<le> r then \<lfloor>r\<rfloor> else \<lceil>r\<rceil>)"

text \<open>
  Binary64 arithmetic, in which Python's \<open>float\<close> and \<open>numpy.float64\<close> compute. A value is
  a finite number, an infinity or not-a-number; the two signed zeros are one value. The
  finite numbers are the multiples \<open>m * 2 ^ e\<close> with \<open>\<bar>m\<bar> < 2 ^ 53\<close> and \<open>e\<close> from -1074 to
  971.
\<close>

datatype float64 = Fin real | PInf | NInf | NaN

definition b64 :: "real set" where
  "b64 = {of_int m * 2 powi e | m e. \<bar>m\<bar> < 2 ^ 53 \<and> - 1074 \<le> e \<and> e \<le> 971}"

fun is_finite :: "float64 \<Rightarrow> bool" where
  "is_finite (Fin a) = True"
| "is_finite _ = False"

text \<open>
  Rounding to nearest, ties to even: the exact result is scaled so that its integer part
  has 53 bits (fewer below \<open>2 ^ - 1022\<close>, where the exponent stays at -1074), rounded to
  an integer with ties going to the even one, and scaled back; a rounded magnitude of
  \<open>2 ^ 1024\<close> or more is an infinity.
\<close>

definition round_half_even :: "real \<Rightarrow> int" where
  "round_half_even y =
     (let f = \<lfloor>y\<rfloor>
      in if y - of_int f < 1 / 2 then f
         else if 1 / 2 < y - of_int f then f + 1
         else if even f then f else f + 1)"

definition round64 :: "real \<Rightarrow> float64" where
  "round64 r =
     (if r = 0 then Fin 0
      else let e = max (\<lfloor>log 2 \<bar>r\<bar>\<rfloor> - 52) (- 1074);
               x = of_int (round_half_even (r / 2 powi e)) * 2 powi e
           in if 2 ^ 1024 \<le> x then PInf
              else if x \<le> - (2 ^ 1024) then NInf
              else Fin x)"

text \<open>
  The operations: on finite operands the exact result, rounded; otherwise the rules for
  infinities and not-a-number. The program divides by the literal 100 only.
\<close>

fun fneg :: "float64 \<Rightarrow> float64" where
  "fneg (Fin a) = Fin (- a)"
| "fneg PInf = NInf"
| "fneg NInf = PInf"
| "fneg NaN = NaN"

fun fadd :: "float64 \<Rightarrow> float64 \<Rightarrow> float64" where
  "fadd (Fin a) (Fin b) = round64 (a + b)"
| "fadd NaN _ = NaN"
| "fadd _ NaN = NaN"
| "fadd PInf NInf = NaN"
| "fadd NInf PInf = NaN"
| "fadd PInf _ = PInf"
| "fadd _ PInf = PInf"
| "fadd NInf _ = NInf"
| "fadd _ NInf = NInf"

definition fsub :: "float64 \<Rightarrow> float64 \<Rightarrow> float64" where
  "fsub a b = fadd a (fneg b)"

fun fmul :: "float64 \<Rightarrow> float64 \<Rightarrow> float64" where
  "fmul (Fin a) (Fin b) = round64 (a * b)"
| "fmul NaN _ = NaN"
| "fmul _ NaN = NaN"
| "fmul (Fin a) PInf = (if a = 0 then NaN else if 0 < a then PInf else NInf)"
| "fmul (Fin a) NInf = (if a = 0 then NaN else if 0 < a then NInf else PInf)"
| "fmul PInf (Fin b) = (if b = 0 then NaN else if 0 < b then PInf else NInf)"
| "fmul NInf (Fin b) = (if b = 0 then NaN else if 0 < b then NInf else PInf)"
| "fmul PInf PInf = PInf"
| "fmul NInf NInf = PInf"
| "fmul PInf NInf = NInf"
| "fmul NInf PInf = NInf"

fun fdiv_100 :: "float64 \<Rightarrow> float64" where
  "fdiv_100 (Fin a) = round64 (a / 100)"
| "fdiv_100 PInf = PInf"
| "fdiv_100 NInf = NInf"
| "fdiv_100 NaN = NaN"

text \<open>\<open>str\<close> of an integer: its decimal digits, with a minus sign when negative.\<close>

definition digit_char :: "nat \<Rightarrow> char" where
  "digit_char d = ''0123456789'' ! d"

fun str_nat :: "nat \<Rightarrow> string" where
  "str_nat n = (if n < 10 then [digit_char n] else str_nat (n div 10) @ [digit_char (n mod 10)])"

declare str_nat.simps [simp del]

definition str_int :: "int \<Rightarrow> string" where
  "str_int i = (if i < 0 then CHR ''-'' # str_nat (nat (- i)) else str_nat (nat i))"

subsection \<open>Widgets, artists and the viewer\<close>

text \<open>
  The children of \<open>control_frame\<close>, in packing order. A scale carries the variable it is
  bound to and its range \<open>from_\<close>, \<open>to\<close>.
\<close>

datatype var_name = SliceVar plane | BrightnessVar | ContrastVar

datatype widget = Label | Button | Frame | Scale var_name int int

text \<open>The two lines of a crosshair: where they are and whether they are shown.\<close>

record crosshair =
  vline_x :: real
  hline_y :: real
  vline_visible :: bool
  hline_visible :: bool

record display_params =
  vmin :: float64
  vmax :: float64

record image =
  pixels :: "real list list"
  clim :: display_params

record viewer =
  data :: "volume option"
  slice_controls :: "plane \<Rightarrow> int"
  slice_entries :: "plane \<Rightarrow> string"
  brightness_var :: real
  contrast_var :: real
  control_frame :: "widget list"
  mouse_pressed :: bool
  mouse_over_axes :: "plane option"
  image_plots :: "plane \<Rightarrow> image option"
  crosshair_lines :: "plane \<Rightarrow> crosshair option"
  temp_lines :: "plane \<Rightarrow> crosshair option"

text \<open>
  A mouse event: the view under the pointer, if any, and the pointer's data coordinates
  in that view.
\<close>

record event =
  inaxes :: "plane option"
  xdata :: real
  ydata :: real

text \<open>What an operation leaves behind: the exception raised, if any, and the state.\<close>

type_synonym outcome = "error option \<times> viewer"

definition and_then :: "outcome \<Rightarrow> (viewer \<Rightarrow> outcome) \<Rightarrow> outcome" where
  "and_then r f = (case r of (None, s) \<Rightarrow> f s | (Some e, s) \<Rightarrow> (Some e, s))"

text \<open>The dictionaries are built with the keys in this order.\<close>

definition planes :: "plane list" where
  "planes = [Axial, Sagittal, Coronal]"

text \<open>The state \<open>__init__\<close> builds: \<open>create_controls\<close> packs the widgets in this order.\<close>

definition create_controls :: "widget list" where
  "create_controls =
     [Label, Button,
      Frame, Scale (SliceVar Axial) 0 100,
      Frame, Scale (SliceVar Sagittal) 0 100,
      Frame, Scale (SliceVar Coronal) 0 100,
      Label, Scale BrightnessVar 100 (- 100),
      Label, Scale ContrastVar 100 (- 100)]"

definition init_viewer :: viewer where
  "init_viewer =
     \<lparr> data = None,
       slice_controls = (\<lambda>_. 0),
       slice_entries = (\<lambda>_. ''0''),
       brightness_var = 0,
       contrast_var = 0,
       control_frame = create_controls,
       mouse_pressed = False,
       mouse_over_axes = None,
       image_plots = (\<lambda>_. None),
       crosshair_lines = (\<lambda>_. None),
       temp_lines = (\<lambda>_. None) \<rparr>"

subsection \<open>Operations\<close>

text \<open>
  \<open>initialize_slice_positions\<close>: every slice variable and entry goes to the middle of its
  axis, and the first scale among the children of the control frame that is bound to the
  variable gets the range of the axis.
\<close>

fun configure_scale :: "var_name \<Rightarrow> int \<Rightarrow> widget list \<Rightarrow> widget list" where
  "configure_scale var max_val [] = []"
| "configure_scale var max_val (Scale v f t # ws) =
     (if v = var then Scale v 0 max_val # ws
      else Scale v f t # configure_scale var max_val ws)"
| "configure_scale var max_val (w # ws) = w # configure_scale var max_val ws"

definition initialize_plane :: "volume \<Rightarrow> plane \<Rightarrow> viewer \<Rightarrow> viewer" where
  "initialize_plane v p s =
     (let max_val = shape_at v (dim_index p) - 1;
          middle_val = max_val div 2
      in s\<lparr> slice_controls := (slice_controls s)(p := middle_val),
            slice_entries := (slice_entries s)(p := str_int middle_val),
            control_frame := configure_scale (SliceVar p) max_val (control_frame s) \<rparr>)"

definition initialize_slice_positions :: "viewer \<Rightarrow> viewer" where
  "initialize_slice_positions s =
     (case data s of
        None \<Rightarrow> s
      | Some v \<Rightarrow> fold (initialize_plane v) planes s)"

text \<open>
  \<open>get_slice_display_params\<close>, for the volume \<open>v\<close> in \<open>self.data\<close>. The minimum and the
  maximum of finite voxels are exact; every other operation is a binary64 operation.
\<close>

definition get_slice_display_params :: "volume \<Rightarrow> viewer \<Rightarrow> error + display_params" where
  "get_slice_display_params v s =
     (let brightness = fdiv_100 (Fin (brightness_var s));
          contrast = fdiv_100 (fadd (Fin (contrast_var s)) (Fin 100))
      in case np_min v of
           Inl e \<Rightarrow> Inl e
         | Inr data_min \<Rightarrow>
             (case np_max v of
                Inl e \<Rightarrow> Inl e
              | Inr data_max \<Rightarrow>
                  (let data_range = fsub (Fin data_max) (Fin data_min)
                   in Inr \<lparr> vmin = fadd (Fin data_min) (fmul brightness data_range),
                            vmax = fmul (Fin data_max) contrast \<rparr>)))"

text \<open>
  The dictionary \<open>slices\<close> of \<open>initialize_plots\<close> and \<open>update_image_data\<close>: the three planes
  through \<open>(x, y, z)\<close>, each rotated and flipped, built in the order axial, sagittal,
  coronal.
\<close>

definition make_slices :: "volume \<Rightarrow> int \<Rightarrow> int \<Rightarrow> int \<Rightarrow> error + (plane \<Rightarrow> real list list)" where
  "make_slices v x y z =
     (case slice_axial v z of
        Inl e \<Rightarrow> Inl e
      | Inr a \<Rightarrow>
          (case slice_sagittal v x of
             Inl e \<Rightarrow> Inl e
           | Inr sg \<Rightarrow>
               (case slice_coronal v y of
                  Inl e \<Rightarrow> Inl e
                | Inr c \<Rightarrow>
                    Inr (\<lambda>p. np_flip1 (np_rot90
                          (case p of Axial \<Rightarrow> a | Sagittal \<Rightarrow> sg | Coronal \<Rightarrow> c))))))"

text \<open>
  \<open>update_crosshairs\<close>: the permanent lines of each view move to the current position. A
  line that was never created is \<open>None\<close>, and calling its method raises AttributeError.
\<close>

definition set_crosshair :: "plane \<Rightarrow> real \<Rightarrow> real \<Rightarrow> viewer \<Rightarrow> outcome" where
  "set_crosshair p vx hy s =
     (case crosshair_lines s p of
        None \<Rightarrow> (Some AttributeError, s)
      | Some c \<Rightarrow>
          (None, s\<lparr> crosshair_lines :=
                      (crosshair_lines s)(p := Some (c\<lparr> vline_x := vx, hline_y := hy \<rparr>)) \<rparr>))"

definition update_crosshairs :: "viewer \<Rightarrow> outcome" where
  "update_crosshairs s =
     (case data s of
        None \<Rightarrow> (None, s)
      | Some v \<Rightarrow>
          (let x = slice_controls s Sagittal;
               y = slice_controls s Coronal;
               z = slice_controls s Axial
           in and_then
                (and_then
                   (set_crosshair Axial (of_int x) (of_int (shape_at v 1 - y - 1)) s)
                   (set_crosshair Sagittal (of_int (shape_at v 1 - y - 1)) (of_int z)))
                (set_crosshair Coronal (of_int x) (of_int z))))"

text \<open>
  \<open>update_image_data\<close>: new display range, new slices, then every image plot takes its
  slice and the range.
\<close>

definition set_image :: "(plane \<Rightarrow> real list list) \<Rightarrow> display_params \<Rightarrow> plane \<Rightarrow> viewer \<Rightarrow> outcome" where
  "set_image slices dp p s =
     (case image_plots s p of
        None \<Rightarrow> (Some AttributeError, s)
      | Some im \<Rightarrow>
          (None, s\<lparr> image_plots :=
                      (image_plots s)(p := Some (im\<lparr> pixels := slices p, clim := dp \<rparr>)) \<rparr>))"

definition update_image_data :: "viewer \<Rightarrow> outcome" where
  "update_image_data s =
     (case data s of
        None \<Rightarrow> (None, s)
      | Some v \<Rightarrow>
          (case get_slice_display_params v s of
             Inl e \<Rightarrow> (Some e, s)
           | Inr dp \<Rightarrow>
               (let x = slice_controls s Sagittal;
                    y = slice_controls s Coronal;
                    z = slice_controls s Axial
                in case make_slices v x y z of
                     Inl e \<Rightarrow> (Some e, s)
                   | Inr slices \<Rightarrow>
                       and_then
                         (and_then (set_image slices dp Axial s) (set_image slices dp Sagittal))
                         (set_image slices dp Coronal))))"

text \<open>
  \<open>initialize_plots\<close>: every view gets a fresh image, a permanent crosshair at the origin
  and a hidden temporary crosshair; then the permanent crosshairs are placed.
\<close>

definition new_plot :: "(plane \<Rightarrow> real list list) \<Rightarrow> display_params \<Rightarrow> plane \<Rightarrow> viewer \<Rightarrow> viewer" where
  "new_plot slices dp p s =
     s\<lparr> image_plots := (image_plots s)(p := Some \<lparr> pixels = slices p, clim = dp \<rparr>),
        crosshair_lines := (crosshair_lines s)
          (p := Some \<lparr> vline_x = 0, hline_y = 0, vline_visible = True, hline_visible = True \<rparr>),
        temp_lines := (temp_lines s)
          (p := Some \<lparr> vline_x = 0, hline_y = 0, vline_visible = False, hline_visible = False \<rparr>) \<rparr>"

definition initialize_plots :: "viewer \<Rightarrow> outcome" where
  "initialize_plots s =
     (case data s of
        None \<Rightarrow> (None, s)
      | Some v \<Rightarrow>
          (case get_slice_display_params v s of
             Inl e \<Rightarrow> (Some e, s)
           | Inr dp \<Rightarrow>
               (let x = slice_controls s Sagittal;
                    y = slice_controls s Coronal;
                    z = slice_controls s Axial
                in case make_slices v x y z of
                     Inl e \<Rightarrow> (Some e, s)
                   | Inr slices \<Rightarrow> update_crosshairs (fold (new_plot slices dp) planes s))))"

text \<open>
  \<open>update_temp_crosshairs\<close>: all temporary crosshairs are hidden, then the one of the
  hovered view is shown at the pointer.
\<close>

definition hide_temp :: "plane \<Rightarrow> viewer \<Rightarrow> outcome" where
  "hide_temp p s =
     (case temp_lines s p of
        None \<Rightarrow> (Some AttributeError, s)
      | Some c \<Rightarrow>
          (None, s\<lparr> temp_lines :=
                      (temp_lines s)(p := Some (c\<lparr> vline_visible := False, hline_visible := False \<rparr>)) \<rparr>))"

definition show_temp :: "plane \<Rightarrow> real \<Rightarrow> real \<Rightarrow> viewer \<Rightarrow> outcome" where
  "show_temp p x y s =
     (case temp_lines s p of
        None \<Rightarrow> (Some AttributeError, s)
      | Some c \<Rightarrow>
          (None, s\<lparr> temp_lines :=
                      (temp_lines s)(p := Some \<lparr> vline_x = x, hline_y = y,
                                                 vline_visible = True, hline_visible = True \<rparr>) \<rparr>))"

definition update_temp_crosshairs :: "event \<Rightarrow> viewer \<Rightarrow> outcome" where
  "update_temp_crosshairs ev s =
     (case inaxes ev of
        None \<Rightarrow> (None, s)
      | Some view_name \<Rightarrow>
          if data s = None then (None, s)
          else and_then
                 (and_then (and_then (hide_temp Axial s) (hide_temp Sagittal)) (hide_temp Coronal))
                 (show_temp view_name (xdata ev) (ydata ev)))"

text \<open>
  \<open>update_cursor_position\<close>: the pointer's coordinates, clipped against the first two
  dimensions of the volume, become the two slice positions the view addresses.
\<close>

definition set_slice :: "plane \<Rightarrow> int \<Rightarrow> viewer \<Rightarrow> viewer" where
  "set_slice p value s =
     s\<lparr> slice_controls := (slice_controls s)(p := value),
        slice_entries := (slice_entries s)(p := str_int value) \<rparr>"

definition update_cursor_position :: "event \<Rightarrow> viewer \<Rightarrow> outcome" where
  "update_cursor_position ev s =
     (case inaxes ev of
        None \<Rightarrow> (None, s)
      | Some view_name \<Rightarrow>
          (case data s of
             None \<Rightarrow> (None, s)
           | Some v \<Rightarrow>
               (let x = int_of_float (np_clip (xdata ev) 0 (shape_at v 0 - 1));
                    y = int_of_float (np_clip (ydata ev) 0 (shape_at v 1 - 1));
                    s' = (case view_name of
                            Axial \<Rightarrow>
                              (let coronal_y = shape_at v 1 - y - 1
                               in set_slice Coronal coronal_y (set_slice Sagittal x s))
                          | Sagittal \<Rightarrow>
                              (let coronal_x = shape_at v 1 - x - 1
                               in set_slice Axial y (set_slice Coronal coronal_x s))
                          | Coronal \<Rightarrow> set_slice Axial y (set_slice Sagittal x s))
                in and_then (update_image_data s') update_crosshairs)))"

text \<open>
  \<open>load_nifti\<close>. The file dialog and the loader are outside the program: their outcome is
  the argument. Every exception is caught and reported in a dialog.
\<close>

datatype load_result = Cancelled | LoadFailed | Loaded volume

datatype message = NoMessage | Success | Failure

definition load_nifti :: "load_result \<Rightarrow> viewer \<Rightarrow> message \<times> viewer" where
  "load_nifti r s =
     (case r of
        Cancelled \<Rightarrow> (NoMessage, s)
      | LoadFailed \<Rightarrow> (Failure, s)
      | Loaded v \<Rightarrow>
          (case initialize_plots (initialize_slice_positions (s\<lparr> data := Some v \<rparr>)) of
             (None, s') \<Rightarrow> (Success, s')
           | (Some e, s') \<Rightarrow> (Failure, s')))"

text \<open>
  The callbacks. \<open>on_slider_change\<close> receives the scale's value; \<open>on_entry_change\<close> reads
  the entry of its plane. \<open>int\<close> of a string is the parameter \<open>parse\<close>, with \<open>None\<close> for
  ValueError. A ValueError of the redraw is caught by the same handler.
\<close>

definition on_slider_change :: "real \<Rightarrow> plane \<Rightarrow> viewer \<Rightarrow> outcome" where
  "on_slider_change value p s =
     and_then
       (update_image_data (s\<lparr> slice_entries := (slice_entries s)(p := str_int (int_of_float value)) \<rparr>))
       update_crosshairs"

definition revert_entry :: "plane \<Rightarrow> viewer \<Rightarrow> viewer" where
  "revert_entry p s = s\<lparr> slice_entries := (slice_entries s)(p := str_int (slice_controls s p)) \<rparr>"

definition on_entry_change :: "(string \<Rightarrow> int option) \<Rightarrow> plane \<Rightarrow> viewer \<Rightarrow> outcome" where
  "on_entry_change parse p s =
     (case parse (slice_entries s p) of
        None \<Rightarrow> (None, revert_entry p s)
      | Some value0 \<Rightarrow>
          (let value = (case data s of
                          None \<Rightarrow> value0
                        | Some v \<Rightarrow>
                            (let max_val = shape_at v (dim_index p) - 1
                             in max 0 (min value0 max_val)))
           in case and_then (update_image_data (set_slice p value s)) update_crosshairs of
                (Some ValueError, s') \<Rightarrow> (None, revert_entry p s')
              | r \<Rightarrow> r))"

definition on_axes_enter :: "event \<Rightarrow> viewer \<Rightarrow> outcome" where
  "on_axes_enter ev s = (None, s\<lparr> mouse_over_axes := inaxes ev \<rparr>)"

definition on_axes_leave :: "event \<Rightarrow> viewer \<Rightarrow> outcome" where
  "on_axes_leave ev s =
     and_then (update_image_data (s\<lparr> mouse_over_axes := None \<rparr>)) update_crosshairs"

definition on_motion :: "event \<Rightarrow> viewer \<Rightarrow> outcome" where
  "on_motion ev s =
     (if inaxes ev \<noteq> None \<and> data s \<noteq> None then
        (if mouse_pressed s then update_cursor_position ev s
         else update_temp_crosshairs ev s)
      else (None, s))"

definition on_click :: "event \<Rightarrow> viewer \<Rightarrow> outcome" where
  "on_click ev s =
     (if inaxes ev \<noteq> None \<and> data s \<noteq> None then
        update_cursor_position ev (s\<lparr> mouse_pressed := True \<rparr>)
      else (None, s))"

definition on_release :: "event \<Rightarrow> viewer \<Rightarrow> outcome" where
  "on_release ev s = (None, s\<lparr> mouse_pressed := False \<rparr>)"

definition update_display :: "viewer \<Rightarrow> outcome" where
  "update_display s = and_then (update_image_data s) update_crosshairs"

subsection \<open>Observations and sample inputs\<close>

text \<open>The range of the first scale bound to a variable, as \<open>configure_scale\<close> finds it.\<close>

fun scale_range :: "var_name \<Rightarrow> widget list \<Rightarrow> (int \<times> int) option" where
  "scale_range var [] = None"
| "scale_range var (Scale v f t # ws) = (if v = var then Some (f, t) else scale_range var ws)"
| "scale_range var (w # ws) = scale_range var ws"

text \<open>
  A reader of plain decimal numerals with an optional sign, to stand for \<open>int\<close> in
  examples. Python's \<open>int\<close> accepts more (surrounding blanks, underscores between
  digits); \<open>on_entry_change\<close> takes the reader as a parameter, so nothing proved about the
  handler depends on this choice.
\<close>

definition digit_val :: "char \<Rightarrow> nat option" where
  "digit_val c =
     (let n = (of_char c :: nat) in if 48 \<le> n \<and> n \<le> 57 then Some (n - 48) else None)"

fun parse_digits :: "nat \<Rightarrow> string \<Rightarrow> nat option" where
  "parse_digits acc [] = Some acc"
| "parse_digits acc (c # cs) =
     (case digit_val c of None \<Rightarrow> None | Some d \<Rightarrow> parse_digits (10 * acc + d) cs)"

definition parse_nat :: "string \<Rightarrow> nat option" where
  "parse_nat cs = (if cs = [] then None else parse_digits 0 cs)"

definition parse_int :: "string \<Rightarrow> int option" where
  "parse_int cs =
     (case cs of
        [] \<Rightarrow> None
      | c # rest \<Rightarrow>
          if c = CHR ''-'' then map_option (\<lambda>n. - int n) (parse_nat rest)
          else if c = CHR ''+'' then map_option int (parse_nat rest)
          else map_option int (parse_nat cs))"

text \<open>
  Sample volumes: two voxels 0 and 200; a blank one of shape (10, 20, 30); two voxels
  \<open>- 2 ^ 1023\<close> and \<open>2 ^ 1023\<close>, whose difference is beyond the largest binary64 number.
\<close>

definition two_voxels :: volume where
  "two_voxels = \<lparr> shape = (1, 1, 2), voxel = (\<lambda>x y z. if z = 0 then 0 else 200) \<rparr>"

definition blank_volume :: volume where
  "blank_volume = \<lparr> shape = (10, 20, 30), voxel = (\<lambda>x y z. 0) \<rparr>"

definition wide_voxels :: volume where
  "wide_voxels = \<lparr> shape = (1, 1, 2), voxel = (\<lambda>x y z. if z = 0 then - (2 ^ 1023) else 2 ^ 1023) \<rparr>"

text \<open>The temporary crosshair as \<open>initialize_plots\<close> creates it.\<close>

definition hidden_crosshair :: crosshair where
  "hidden_crosshair = \<lparr> vline_x = 0, hline_y = 0, vline_visible = False, hline_visible = False \<rparr>"

section \<open>Properties\<close>

subsection \<open>Sequencing and what a redraw leaves alone\<close>

lemma fst_and_then:
  "fst (and_then r f) = (case fst r of None \<Rightarrow> fst (f (snd r)) | Some e \<Rightarrow> Some e)"
  by (cases r) (auto simp: and_then_def split: option.splits)

lemma snd_and_then:
  "snd (and_then r f) = (case fst r of None \<Rightarrow> snd (f (snd r)) | Some e \<Rightarrow> snd r)"
  by (cases r) (auto simp: and_then_def split: option.splits)

lemma and_then_ok: "fst r = None \<Longrightarrow> and_then r f = f (snd r)"
  by (cases r) (simp add: and_then_def)

lemma and_then_invariant:
  assumes "Q (snd r)" and "\<And>t. Q t \<Longrightarrow> Q (snd (f t))"
  shows "Q (snd (and_then r f))"
proof (cases "fst r")
  case None
  then show ?thesis using assms by (simp add: snd_and_then)
next
  case (Some e)
  then show ?thesis using assms(1) by (simp add: snd_and_then)
qed

text \<open>
  Moving the permanent crosshairs and refreshing the images change the artists only:
  the volume, the slice variables, the entries, the widgets, the mouse flags and the
  temporary crosshairs stay as they are, whether or not an exception ends the redraw.
\<close>

lemma set_crosshair_keeps:
  "data (snd (set_crosshair p vx hy s)) = data s"
  "slice_controls (snd (set_crosshair p vx hy s)) = slice_controls s"
  "slice_entries (snd (set_crosshair p vx hy s)) = slice_entries s"
  "brightness_var (snd (set_crosshair p vx hy s)) = brightness_var s"
  "contrast_var (snd (set_crosshair p vx hy s)) = contrast_var s"
  "control_frame (snd (set_crosshair p vx hy s)) = control_frame s"
  "mouse_pressed (snd (set_crosshair p vx hy s)) = mouse_pressed s"
  "mouse_over_axes (snd (set_crosshair p vx hy s)) = mouse_over_axes s"
  "image_plots (snd (set_crosshair p vx hy s)) = image_plots s"
  "temp_lines (snd (set_crosshair p vx hy s)) = temp_lines s"
  by (simp_all add: set_crosshair_def split: option.splits)

lemma update_crosshairs_keeps:
  "data (snd (update_crosshairs s)) = data s"
  "slice_controls (snd (update_crosshairs s)) = slice_controls s"
  "slice_entries (snd (update_crosshairs s)) = slice_entries s"
  "brightness_var (snd (update_crosshairs s)) = brightness_var s"
  "contrast_var (snd (update_crosshairs s)) = contrast_var s"
  "control_frame (snd (update_crosshairs s)) = control_frame s"
  "mouse_pressed (snd (update_crosshairs s)) = mouse_pressed s"
  "mouse_over_axes (snd (update_crosshairs s)) = mouse_over_axes s"
  "image_plots (snd (update_crosshairs s)) = image_plots s"
  "temp_lines (snd (update_crosshairs s)) = temp_lines s"
  by (simp_all add: update_crosshairs_def Let_def snd_and_then set_crosshair_keeps
        split: option.splits)

lemma set_image_keeps:
  "data (snd (set_image sl dp p s)) = data s"
  "slice_controls (snd (set_image sl dp p s)) = slice_controls s"
  "slice_entries (snd (set_image sl dp p s)) = slice_entries s"
  "brightness_var (snd (set_image sl dp p s)) = brightness_var s"
  "contrast_var (snd (set_image sl dp p s)) = contrast_var s"
  "control_frame (snd (set_image sl dp p s)) = control_frame s"
  "mouse_pressed (snd (set_image sl dp p s)) = mouse_pressed s"
  "mouse_over_axes (snd (set_image sl dp p s)) = mouse_over_axes s"
  "crosshair_lines (snd (set_image sl dp p s)) = crosshair_lines s"
  "temp_lines (snd (set_image sl dp p s)) = temp_lines s"
  by (simp_all add: set_image_def split: option.splits)

lemma update_image_data_keeps:
  "data (snd (update_image_data s)) = data s"
  "slice_controls (snd (update_image_data s)) = slice_controls s"
  "slice_entries (snd (update_image_data s)) = slice_entries s"
  "brightness_var (snd (update_image_data s)) = brightness_var s"
  "contrast_var (snd (update_image_data s)) = contrast_var s"
  "control_frame (snd (update_image_data s)) = control_frame s"
  "mouse_pressed (snd (update_image_data s)) = mouse_pressed s"
  "mouse_over_axes (snd (update_image_data s)) = mouse_over_axes s"
  "crosshair_lines (snd (update_image_data s)) = crosshair_lines s"
  "temp_lines (snd (update_image_data s)) = temp_lines s"
  by (simp_all add: update_image_data_def Let_def snd_and_then set_image_keeps
        split: option.splits sum.splits)

lemma redraw_keeps:
  "data (snd (and_then (update_image_data s) update_crosshairs)) = data s"
  "slice_controls (snd (and_then (update_image_data s) update_crosshairs)) = slice_controls s"
  "slice_entries (snd (and_then (update_image_data s) update_crosshairs)) = slice_entries s"
  "brightness_var (snd (and_then (update_image_data s) update_crosshairs)) = brightness_var s"
  "contrast_var (snd (and_then (update_image_data s) update_crosshairs)) = contrast_var s"
  "control_frame (snd (and_then (update_image_data s) update_crosshairs)) = control_frame s"
  "mouse_pressed (snd (and_then (update_image_data s) update_crosshairs)) = mouse_pressed s"
  "mouse_over_axes (snd (and_then (update_image_data s) update_crosshairs)) = mouse_over_axes s"
  "temp_lines (snd (and_then (update_image_data s) update_crosshairs)) = temp_lines s"
  by (simp_all add: snd_and_then update_image_data_keeps update_crosshairs_keeps
        split: option.splits)

subsection \<open>Binary64 rounding\<close>

text \<open>
  A binary64 number rounds to itself, and an exact result of \<open>2 ^ 1024\<close> or more rounds to
  infinity.
\<close>

lemma round_half_even_int: "round_half_even (of_int k) = k"
  by (simp add: round_half_even_def)

lemma round64_exact:
  assumes "x \<in> b64"
  shows "round64 x = Fin x"
proof (cases "x = 0")
  case True
  then show ?thesis by (simp add: round64_def)
next
  case False
  from assms obtain m e0 where x: "x = of_int m * 2 powi e0"
    and m: "\<bar>m\<bar> < 2 ^ 53" and e0: "- 1074 \<le> e0" "e0 \<le> 971"
    by (auto simp: b64_def)
  define e where "e = max (\<lfloor>log 2 \<bar>x\<bar>\<rfloor> - 52) (- 1074)"
  have m0: "m \<noteq> 0" using False x by auto
  have absx: "\<bar>x\<bar> = of_int \<bar>m\<bar> * 2 powi e0"
    by (simp add: x abs_mult)
  have "\<bar>x\<bar> < 2 ^ 53 * 2 powi e0"
  proof -
    have "real_of_int \<bar>m\<bar> < 2 ^ 53" using m by (metis of_int_less_iff of_int_numeral of_int_power)
    then show ?thesis unfolding absx by (simp add: mult_strict_right_mono)
  qed
  also have "\<dots> = 2 powr (53 + real_of_int e0)"
    by (simp add: powr_add powr_realpow [symmetric] powr_real_of_int')
  finally have "log 2 \<bar>x\<bar> < 53 + real_of_int e0"
    using False by (simp add: log_less_iff)
  then have "\<lfloor>log 2 \<bar>x\<bar>\<rfloor> \<le> 52 + e0"
    by (simp add: floor_le_iff)
  then have le: "e \<le> e0"
    using e0 by (simp add: e_def)
  then obtain k where k: "e0 = e + int k"
    by (metis zle_iff_zadd)
  have "x / 2 powi e = of_int (m * 2 ^ k)"
    by (simp add: x k power_int_add power_int_nonneg_exp)
  then have "round_half_even (x / 2 powi e) = m * 2 ^ k"
    by (simp only: round_half_even_int)
  then have same: "of_int (round_half_even (x / 2 powi e)) * 2 powi e = x"
    by (simp add: x k power_int_add power_int_nonneg_exp)
  have bound: "\<bar>x\<bar> < 2 ^ 1024"
  proof -
    have "\<bar>x\<bar> < 2 ^ 53 * 2 powi e0" by fact
    also have "\<dots> \<le> 2 ^ 53 * 2 powi 971"
    proof -
      have "(2::real) powi e0 \<le> 2 powi 971"
        using e0 by (intro power_int_increasing) simp_all
      then show ?thesis
        by (intro mult_left_mono) simp_all
    qed
    also have "\<dots> = 2 ^ 1024"
      by simp
    finally show ?thesis .
  qed
  show ?thesis
    using False same bound
    by (simp add: round64_def Let_def e_def [symmetric] abs_less_iff)
qed


lemma round_half_even_ge_floor: "\<lfloor>y\<rfloor> \<le> round_half_even y"
  by (simp add: round_half_even_def Let_def)

lemma round64_overflow:
  assumes "2 ^ 1024 \<le> r"
  shows "round64 r = PInf"
proof -
  define L where "L = \<lfloor>log 2 \<bar>r\<bar>\<rfloor>"
  define e where "e = max (L - 52) (- 1074)"
  have pos: "0 < r"
    using assms by (rule less_le_trans [rotated]) simp
  have p: "(2::real) powr 1024 \<le> r"
    using assms by simp
  have "1024 \<le> log 2 r"
  proof (rule iffD2 [OF le_log_iff])
    show "(1::real) < 2" by simp
    show "0 < r" by fact
    show "2 powr 1024 \<le> r" by fact
  qed
  then have L: "1024 \<le> L"
    using pos by (simp add: L_def le_floor_iff)
  then have e: "e = L - 52"
    by (simp add: e_def)
  have "2 powr (of_int L) \<le> r"
    using floor_log_eq_powr_iff [of r 2 L] pos by (simp add: L_def)
  then have low: "2 powi L \<le> r"
    by (simp add: powr_real_of_int')
  have "(2::real) ^ 52 = 2 powi L / 2 powi e"
    by (simp add: e power_int_diff)
  also have "\<dots> \<le> r / 2 powi e"
    using low by (simp add: divide_right_mono)
  finally have "of_int (2 ^ 52) \<le> r / 2 powi e"
    by simp
  then have "2 ^ 52 \<le> \<lfloor>r / 2 powi e\<rfloor>"
    by (simp only: le_floor_iff)
  then have "(2::int) ^ 52 \<le> round_half_even (r / 2 powi e)"
    using round_half_even_ge_floor [of "r / 2 powi e"] by linarith
  then have "(2::real) ^ 52 \<le> of_int (round_half_even (r / 2 powi e))"
    by (metis of_int_le_iff of_int_numeral of_int_power)
  then have d: "(2::real) ^ 52 * 2 powi e \<le> of_int (round_half_even (r / 2 powi e)) * 2 powi e"
    by (intro mult_right_mono) simp_all
  have "(2::real) ^ 1024 = 2 powi 1024"
    by simp
  also have "\<dots> \<le> 2 powi L"
    using L by (intro power_int_increasing) simp_all
  also have "\<dots> = 2 ^ 52 * 2 powi e"
    by (simp add: e power_int_diff)
  also note d
  finally have big: "(2::real) ^ 1024 \<le> of_int (round_half_even (r / 2 powi e)) * 2 powi e" .
  define x where "x = real_of_int (round_half_even (r / 2 powi e)) * 2 powi e"
  have "round64 r = (if 2 ^ 1024 \<le> x then PInf else if x \<le> - (2 ^ 1024) then NInf else Fin x)"
    using pos unfolding round64_def x_def e_def L_def Let_def by simp
  also have "\<dots> = PInf"
    using big unfolding x_def by (simp only: if_True)
  finally show ?thesis .
qed

lemma int_in_b64: "\<bar>m\<bar> < 2 ^ 53 \<Longrightarrow> of_int m \<in> b64"
  unfolding b64_def by (rule CollectI, rule exI [of _ m], rule exI [of _ 0]) simp

lemma half_in_b64: "1 / 2 \<in> b64"
  unfolding b64_def by (rule CollectI, rule exI [of _ 1], rule exI [of _ "- 1"]) simp

lemma big_in_b64: "2 ^ 1023 \<in> b64" "- (2 ^ 1023) \<in> b64"
  unfolding b64_def
  by (rule CollectI, rule exI [of _ "2 ^ 52"], rule exI [of _ 971], simp,
      rule CollectI, rule exI [of _ "- (2 ^ 52)"], rule exI [of _ 971], simp)

lemma round64_0: "round64 0 = Fin 0"
  by (simp add: round64_def)

lemma round64_1: "round64 1 = Fin 1"
  using round64_exact [OF int_in_b64 [of 1]] by simp

lemma round64_100: "round64 100 = Fin 100"
  using round64_exact [OF int_in_b64 [of 100]] by simp

lemma round64_200: "round64 200 = Fin 200"
  using round64_exact [OF int_in_b64 [of 200]] by simp

lemma round64_half: "round64 (1 / 2) = Fin (1 / 2)"
  by (rule round64_exact [OF half_in_b64])

lemma voxels_wide_voxels: "voxels wide_voxels = [- (2 ^ 1023), 2 ^ 1023]"
  by (simp add: voxels_def wide_voxels_def upt_rec)

subsection \<open>Clipping, indexing and the display range\<close>

lemma int_of_float_of_int: "int_of_float (of_int k) = k"
  by (simp add: int_of_float_def)

lemma clip_in_range: "0 \<le> k \<Longrightarrow> k \<le> hi \<Longrightarrow> np_clip (of_int k) 0 hi = of_int k"
  by (simp add: np_clip_def)

lemma clip_round: "0 \<le> k \<Longrightarrow> k \<le> hi \<Longrightarrow> int_of_float (np_clip (of_int k) 0 hi) = k"
  by (simp add: clip_in_range int_of_float_of_int)

lemma clip_bounds:
  "0 \<le> hi \<Longrightarrow> 0 \<le> int_of_float (np_clip a 0 hi) \<and> int_of_float (np_clip a 0 hi) \<le> hi"
  by (auto simp: np_clip_def int_of_float_def min_def max_def le_floor_iff floor_le_iff)

lemma py_index_ok: "0 \<le> i \<Longrightarrow> i < int n \<Longrightarrow> py_index n i = Inr (nat i)"
  by (simp add: py_index_def)

lemma py_index_beyond: "int n \<le> i \<Longrightarrow> py_index n i = Inl IndexError"
  by (simp add: py_index_def)

lemma voxels_nonempty:
  assumes "shape v = (nx, ny, nz)" and "0 < nx" and "0 < ny" and "0 < nz"
  shows "voxels v \<noteq> []"
proof -
  have "voxel v 0 0 0 \<in> set (voxels v)"
    using assms by (simp add: voxels_def) (force intro: bexI [of _ 0])
  then show ?thesis by auto
qed

lemma voxels_two_voxels: "voxels two_voxels = [0, 200]"
  by (simp add: voxels_def two_voxels_def upt_rec)

lemma np_min_Min:
  assumes "voxels v \<noteq> []"
  shows "np_min v = Inr (Min (set (voxels v)))"
proof -
  from assms obtain a as where vs: "voxels v = a # as"
    by (cases "voxels v") auto
  have "Min (set (a # as)) = fold min as a"
    by (rule Min.set_eq_fold)
  with vs show ?thesis
    by (simp add: np_min_def)
qed

lemma np_max_Max:
  assumes "voxels v \<noteq> []"
  shows "np_max v = Inr (Max (set (voxels v)))"
proof -
  from assms obtain a as where vs: "voxels v = a # as"
    by (cases "voxels v") auto
  have "Max (set (a # as)) = fold max as a"
    by (rule Max.set_eq_fold)
  with vs show ?thesis
    by (simp add: np_max_def)
qed

lemma make_slices_ok:
  assumes "shape v = (nx, ny, nz)"
    and "0 \<le> x" "x < int nx" "0 \<le> y" "y < int ny" "0 \<le> z" "z < int nz"
  shows "\<exists>sl. make_slices v x y z = Inr sl"
  using assms
  by (simp add: make_slices_def slice_axial_def slice_sagittal_def slice_coronal_def py_index_ok)

lemma make_slices_axial_beyond:
  assumes "shape v = (nx, ny, nz)" and "int nz \<le> z"
  shows "make_slices v x y z = Inl IndexError"
  using assms by (simp add: make_slices_def slice_axial_def py_index_beyond)

lemma update_image_data_axial_beyond:
  assumes "data s = Some v" and "shape v = (nx, ny, nz)" and "0 < nx" "0 < ny" "0 < nz"
    and "int nz \<le> slice_controls s Axial"
  shows "fst (update_image_data s) = Some IndexError"
  using assms voxels_nonempty [OF assms(2-5)]
  by (simp add: update_image_data_def get_slice_display_params_def np_min_Min np_max_Max
        make_slices_axial_beyond Let_def)

lemma str_int_7: "str_int 7 = ''7''"
  by (simp add: str_int_def str_nat.simps digit_char_def)

subsection \<open>The cursor after a click\<close>

lemma set_slice_controls:
  "slice_controls (set_slice p a s) = (slice_controls s)(p := a)"
  "data (set_slice p a s) = data s"
  by (simp_all add: set_slice_def)

lemma cursor_after_click:
  assumes "data s = Some v" and "inaxes ev = Some V"
  shows "slice_controls (snd (update_cursor_position ev s)) =
     (let x = int_of_float (np_clip (xdata ev) 0 (shape_at v 0 - 1));
          y = int_of_float (np_clip (ydata ev) 0 (shape_at v 1 - 1))
      in case V of
           Axial \<Rightarrow> (slice_controls s)(Sagittal := x, Coronal := shape_at v 1 - y - 1)
         | Sagittal \<Rightarrow> (slice_controls s)(Coronal := shape_at v 1 - x - 1, Axial := y)
         | Coronal \<Rightarrow> (slice_controls s)(Sagittal := x, Axial := y))"
  using assms
  by (cases V) (simp_all add: update_cursor_position_def Let_def redraw_keeps set_slice_controls)

lemma update_cursor_position_keeps_axis:
  assumes "inaxes ev = Some V"
  shows "slice_controls (snd (update_cursor_position ev s)) V = slice_controls s V"
proof (cases "data s")
  case None
  then show ?thesis by (simp add: update_cursor_position_def split: option.splits)
next
  case (Some v)
  show ?thesis
    using assms by (cases V) (simp_all add: cursor_after_click [OF Some assms] Let_def)
qed

lemma update_cursor_position_pressed:
  "slice_controls (snd (update_cursor_position ev (s\<lparr> mouse_pressed := b \<rparr>)))
   = slice_controls (snd (update_cursor_position ev s))"
  by (simp add: update_cursor_position_def Let_def redraw_keeps set_slice_controls
        split: option.splits plane.splits)

text \<open>
  On the axial view the two mappings agree: a click on the crosshair of an in-range
  cursor leaves the cursor where it is.
\<close>

lemma update_crosshairs_lines:
  assumes "data s = Some v" and "\<forall>p. crosshair_lines s p = Some (c p)"
  shows "crosshair_lines (snd (update_crosshairs s)) p =
     Some ((c p)\<lparr>
       vline_x := (case p of
                     Axial \<Rightarrow> of_int (slice_controls s Sagittal)
                   | Sagittal \<Rightarrow> of_int (shape_at v 1 - slice_controls s Coronal - 1)
                   | Coronal \<Rightarrow> of_int (slice_controls s Sagittal)),
       hline_y := (case p of
                     Axial \<Rightarrow> of_int (shape_at v 1 - slice_controls s Coronal - 1)
                   | Sagittal \<Rightarrow> of_int (slice_controls s Axial)
                   | Coronal \<Rightarrow> of_int (slice_controls s Axial)) \<rparr>)"
  using assms
  by (cases p) (simp_all add: update_crosshairs_def Let_def and_then_def set_crosshair_def)

lemma axial_crosshair_click:
  assumes d: "data s = Some v" and sh: "shape v = (nx, ny, nz)"
    and x: "0 \<le> slice_controls s Sagittal" "slice_controls s Sagittal < int nx"
    and y: "0 \<le> slice_controls s Coronal" "slice_controls s Coronal < int ny"
  shows "slice_controls
           (snd (update_cursor_position
                   \<lparr> inaxes = Some Axial,
                     xdata = of_int (slice_controls s Sagittal),
                     ydata = of_int (shape_at v 1 - slice_controls s Coronal - 1) \<rparr> s))
         = slice_controls s"
proof -
  have cx: "int_of_float (np_clip (of_int (slice_controls s Sagittal)) 0 (shape_at v 0 - 1))
              = slice_controls s Sagittal"
    using sh x by (simp add: shape_at_def clip_in_range int_of_float_of_int)
  have ny: "shape_at v 1 = int ny"
    using sh by (simp add: shape_at_def)
  have cy: "int_of_float (np_clip (of_int (shape_at v 1 - slice_controls s Coronal - 1)) 0
              (shape_at v 1 - 1)) = shape_at v 1 - slice_controls s Coronal - 1"
    using y unfolding ny by (intro clip_round) simp_all
  show ?thesis
    by (simp add: cursor_after_click [OF d] cx cy Let_def del: of_int_diff One_nat_def)
qed

text \<open>A committed entry that reads as an integer stores that integer clamped to its axis.\<close>

lemma entry_commit_clamps:
  assumes "parse (slice_entries s p) = Some a" and "data s = Some v"
  shows "slice_controls (snd (on_entry_change parse p s)) p
           = max 0 (min a (shape_at v (dim_index p) - 1))"
proof -
  let ?clamped = "max 0 (min a (shape_at v (dim_index p) - 1))"
  let ?r = "and_then (update_image_data (set_slice p ?clamped s)) update_crosshairs"
  have r: "slice_controls (snd ?r) p = ?clamped" "slice_entries (snd ?r) = slice_entries (set_slice p ?clamped s)"
    by (simp_all add: redraw_keeps set_slice_def)
  have "on_entry_change parse p s =
          (case ?r of (Some ValueError, s') \<Rightarrow> (None, revert_entry p s') | r \<Rightarrow> r)"
    using assms by (simp add: on_entry_change_def Let_def)
  then have "slice_controls (snd (on_entry_change parse p s)) = slice_controls (snd ?r)"
    by (cases ?r) (auto simp: revert_entry_def split: option.splits error.splits)
  with r show ?thesis by simp
qed

subsection \<open>The temporary crosshairs\<close>

lemma hide_temp_frame:
  "snd (hide_temp p s) = s\<lparr> temp_lines := temp_lines (snd (hide_temp p s)) \<rparr>"
  by (simp add: hide_temp_def split: option.splits)

lemma show_temp_frame:
  "snd (show_temp p x y s) = s\<lparr> temp_lines := temp_lines (snd (show_temp p x y s)) \<rparr>"
  by (simp add: show_temp_def split: option.splits)

lemma temp_frame_step:
  "t = s\<lparr> temp_lines := temp_lines t \<rparr> \<Longrightarrow> u = t\<lparr> temp_lines := temp_lines u \<rparr>
   \<Longrightarrow> u = s\<lparr> temp_lines := temp_lines u \<rparr>"
proof -
  assume a: "t = s\<lparr> temp_lines := temp_lines t \<rparr>" and b: "u = t\<lparr> temp_lines := temp_lines u \<rparr>"
  have "u = (s\<lparr> temp_lines := temp_lines t \<rparr>)\<lparr> temp_lines := temp_lines u \<rparr>"
    by (subst a [symmetric]) (rule b)
  then show "u = s\<lparr> temp_lines := temp_lines u \<rparr>"
    by simp
qed

lemma update_temp_crosshairs_frame:
  "snd (update_temp_crosshairs ev s) = s\<lparr> temp_lines := temp_lines (snd (update_temp_crosshairs ev s)) \<rparr>"
proof -
  let ?Q = "\<lambda>t. t = s\<lparr> temp_lines := temp_lines t \<rparr>"
  have hide: "\<And>p t. ?Q t \<Longrightarrow> ?Q (snd (hide_temp p t))"
    by (rule temp_frame_step [OF _ hide_temp_frame])
  have shw: "\<And>p x y t. ?Q t \<Longrightarrow> ?Q (snd (show_temp p x y t))"
    by (rule temp_frame_step [OF _ show_temp_frame])
  have s0: "?Q s" by simp
  have "?Q (snd (and_then
                 (and_then (and_then (hide_temp Axial s) (hide_temp Sagittal)) (hide_temp Coronal))
                 (show_temp V x y)))" for V x y
    by (intro and_then_invariant [where Q = ?Q] hide shw s0)
  then show ?thesis
    by (simp add: update_temp_crosshairs_def split: option.splits)
qed

lemma hide_temp_ok:
  assumes "\<forall>p. temp_lines s p \<noteq> None"
  shows "fst (hide_temp q s) = None"
    and "\<forall>p. temp_lines (snd (hide_temp q s)) p \<noteq> None"
  using assms by (auto simp: hide_temp_def split: option.splits)

lemma show_temp_ok:
  assumes "temp_lines s p \<noteq> None"
  shows "temp_lines (snd (show_temp p x y s)) p =
           Some \<lparr> vline_x = x, hline_y = y, vline_visible = True, hline_visible = True \<rparr>"
  using assms by (auto simp: show_temp_def split: option.splits)

lemma hover_shows:
  assumes "data s \<noteq> None" and "\<not> mouse_pressed s" and "inaxes ev = Some V"
    and all: "\<forall>p. temp_lines s p \<noteq> None"
  shows "temp_lines (snd (on_motion ev s)) V =
           Some \<lparr> vline_x = xdata ev, hline_y = ydata ev,
                  vline_visible = True, hline_visible = True \<rparr>"
proof -
  note a = hide_temp_ok [OF all, of Axial]
  note b = hide_temp_ok [OF a(2), of Sagittal]
  note c = hide_temp_ok [OF b(2), of Coronal]
  from c(2) have "temp_lines (snd (hide_temp Coronal (snd (hide_temp Sagittal (snd (hide_temp Axial s)))))) V \<noteq> None"
    by simp
  moreover obtain v where "data s = Some v"
    using assms(1) by auto
  ultimately show ?thesis
    using assms(2,3) a(1) b(1) c(1)
    by (simp add: on_motion_def update_temp_crosshairs_def and_then_ok show_temp_ok)
qed

text \<open>
  A motion event with no button held changes the temporary crosshairs and nothing else;
  the pointer leaving a view changes neither the slice variables nor the temporary
  crosshairs.
\<close>

lemma hover_changes_temp_lines_only:
  "(\<not> mouse_pressed s \<longrightarrow>
      snd (on_motion ev s) = s\<lparr> temp_lines := temp_lines (snd (on_motion ev s)) \<rparr>)
   \<and> slice_controls (snd (on_axes_leave ev' s)) = slice_controls s
   \<and> temp_lines (snd (on_axes_leave ev' s)) = temp_lines s"
proof -
  have "snd (update_temp_crosshairs ev s)
          = s\<lparr> temp_lines := temp_lines (snd (update_temp_crosshairs ev s)) \<rparr>"
    by (rule update_temp_crosshairs_frame)
  then have hover: "\<not> mouse_pressed s \<longrightarrow>
      snd (on_motion ev s) = s\<lparr> temp_lines := temp_lines (snd (on_motion ev s)) \<rparr>"
    by (simp add: on_motion_def)
  have leave: "slice_controls (snd (on_axes_leave ev' s)) = slice_controls s"
      "temp_lines (snd (on_axes_leave ev' s)) = temp_lines s"
    by (simp_all add: on_axes_leave_def redraw_keeps)
  from hover leave show ?thesis by simp
qed

text \<open>A hover over one view hides the temporary crosshairs of the two other views.\<close>

lemma hover_hides_others:
  assumes "data s \<noteq> None" and "\<not> mouse_pressed s" and "inaxes ev = Some V" and "p \<noteq> V"
    and "temp_lines s Axial = Some a" and "temp_lines s Sagittal = Some b"
    and "temp_lines s Coronal = Some c"
  shows "map_option vline_visible (temp_lines (snd (on_motion ev s)) p) = Some False"
    and "map_option hline_visible (temp_lines (snd (on_motion ev s)) p) = Some False"
  using assms
  by (cases V; cases p;
      auto simp: on_motion_def update_temp_crosshairs_def and_then_def hide_temp_def show_temp_def)+

subsection \<open>Loading\<close>

lemma scale_range_configure:
  "scale_range var (configure_scale var' m ws) =
     (if var = var' then (if scale_range var ws = None then None else Some (0, m))
      else scale_range var ws)"
  by (induction var' m ws rule: configure_scale.induct) auto

lemma initialize_plane_fields:
  "data (initialize_plane v p s) = data s"
  "mouse_pressed (initialize_plane v p s) = mouse_pressed s"
  "temp_lines (initialize_plane v p s) = temp_lines s"
  "crosshair_lines (initialize_plane v p s) = crosshair_lines s"
  "slice_controls (initialize_plane v p s) = (slice_controls s)(p := (shape_at v (dim_index p) - 1) div 2)"
  "slice_entries (initialize_plane v p s) =
     (slice_entries s)(p := str_int ((shape_at v (dim_index p) - 1) div 2))"
  "control_frame (initialize_plane v p s) =
     configure_scale (SliceVar p) (shape_at v (dim_index p) - 1) (control_frame s)"
  by (simp_all add: initialize_plane_def Let_def)

lemma initialize_slice_positions_fields:
  assumes "data s = Some v"
  shows "data (initialize_slice_positions s) = Some v"
    and "mouse_pressed (initialize_slice_positions s) = mouse_pressed s"
    and "slice_controls (initialize_slice_positions s) p = (shape_at v (dim_index p) - 1) div 2"
    and "slice_entries (initialize_slice_positions s) p = str_int ((shape_at v (dim_index p) - 1) div 2)"
    and "scale_range (SliceVar p) (control_frame (initialize_slice_positions s)) =
           (if scale_range (SliceVar p) (control_frame s) = None then None
            else Some (0, shape_at v (dim_index p) - 1))"
  using assms
  by (cases p; simp add: initialize_slice_positions_def planes_def initialize_plane_fields
        scale_range_configure)+

lemma new_plot_fields:
  "data (new_plot sl dp p s) = data s"
  "slice_controls (new_plot sl dp p s) = slice_controls s"
  "slice_entries (new_plot sl dp p s) = slice_entries s"
  "control_frame (new_plot sl dp p s) = control_frame s"
  "mouse_pressed (new_plot sl dp p s) = mouse_pressed s"
  by (simp_all add: new_plot_def)

lemma initialize_plots_keeps:
  "data (snd (initialize_plots s)) = data s"
  "slice_controls (snd (initialize_plots s)) = slice_controls s"
  "slice_entries (snd (initialize_plots s)) = slice_entries s"
  "control_frame (snd (initialize_plots s)) = control_frame s"
  "mouse_pressed (snd (initialize_plots s)) = mouse_pressed s"
  by (simp_all add: initialize_plots_def Let_def planes_def update_crosshairs_keeps new_plot_fields
        split: option.splits sum.splits)

lemma snd_load_nifti:
  "snd (load_nifti (Loaded v) s) =
     snd (initialize_plots (initialize_slice_positions (s\<lparr> data := Some v \<rparr>)))"
  by (simp add: load_nifti_def split: prod.splits option.splits)

lemma load_nifti_fields:
  "data (snd (load_nifti (Loaded v) s)) = Some v"
  "mouse_pressed (snd (load_nifti (Loaded v) s)) = mouse_pressed s"
  "slice_controls (snd (load_nifti (Loaded v) s)) p = (shape_at v (dim_index p) - 1) div 2"
  "slice_entries (snd (load_nifti (Loaded v) s)) p = str_int ((shape_at v (dim_index p) - 1) div 2)"
  "scale_range (SliceVar p) (control_frame (snd (load_nifti (Loaded v) s))) =
     (if scale_range (SliceVar p) (control_frame s) = None then None
      else Some (0, shape_at v (dim_index p) - 1))"
  by (simp_all add: snd_load_nifti initialize_plots_keeps initialize_slice_positions_fields)

lemma fold_new_plot_fields:
  "temp_lines (fold (new_plot sl dp) planes s) p = Some hidden_crosshair"
  "crosshair_lines (fold (new_plot sl dp) planes s) p \<noteq> None"
  "data (fold (new_plot sl dp) planes s) = data s"
  by (cases p; simp add: planes_def new_plot_def hidden_crosshair_def)+

lemma set_crosshair_ok:
  assumes "\<forall>p. crosshair_lines s p \<noteq> None"
  shows "fst (set_crosshair q a b s) = None"
    and "\<forall>p. crosshair_lines (snd (set_crosshair q a b s)) p \<noteq> None"
  using assms by (auto simp: set_crosshair_def split: option.splits)

lemma update_crosshairs_ok:
  assumes "\<forall>p. crosshair_lines s p \<noteq> None"
  shows "fst (update_crosshairs s) = None"
proof (cases "data s")
  case None
  then show ?thesis by (simp add: update_crosshairs_def)
next
  case (Some v)
  show ?thesis
    using Some
    by (simp add: update_crosshairs_def Let_def and_then_ok
          set_crosshair_ok [OF assms] set_crosshair_ok [OF set_crosshair_ok(2) [OF assms]]
          set_crosshair_ok [OF set_crosshair_ok(2) [OF set_crosshair_ok(2) [OF assms]]])
qed

lemma initialize_plots_ok:
  assumes "data s = Some v" and "voxels v \<noteq> []"
    and "make_slices v (slice_controls s Sagittal) (slice_controls s Coronal)
           (slice_controls s Axial) = Inr sl"
  shows "fst (initialize_plots s) = None"
    and "temp_lines (snd (initialize_plots s)) p = Some hidden_crosshair"
  using assms
  by (simp_all add: initialize_plots_def Let_def get_slice_display_params_def np_min_Min np_max_Max
        update_crosshairs_ok fold_new_plot_fields update_crosshairs_keeps)

lemma middle_in_range: "0 < n \<Longrightarrow> 0 \<le> (int n - 1) div 2 \<and> (int n - 1) div 2 < int n"
  by auto

lemma load_nifti_ok:
  assumes sh: "shape v = (nx, ny, nz)" and pos: "0 < nx" "0 < ny" "0 < nz"
  shows "fst (load_nifti (Loaded v) s) = Success"
    and "temp_lines (snd (load_nifti (Loaded v) s)) p = Some hidden_crosshair"
proof -
  let ?s = "initialize_slice_positions (s\<lparr> data := Some v \<rparr>)"
  have d: "data ?s = Some v"
    by (simp add: initialize_slice_positions_fields)
  have c: "slice_controls ?s Sagittal = (int nx - 1) div 2"
      "slice_controls ?s Coronal = (int ny - 1) div 2"
      "slice_controls ?s Axial = (int nz - 1) div 2"
    using sh by (simp_all add: initialize_slice_positions_fields shape_at_def)
  obtain sl where sl: "make_slices v (slice_controls ?s Sagittal) (slice_controls ?s Coronal)
           (slice_controls ?s Axial) = Inr sl"
    using make_slices_ok [OF sh, of "(int nx - 1) div 2" "(int ny - 1) div 2" "(int nz - 1) div 2"]
      middle_in_range pos c by auto
  have ne: "voxels v \<noteq> []"
    by (rule voxels_nonempty [OF sh pos])
  have ok: "fst (initialize_plots ?s) = None"
    by (rule initialize_plots_ok(1) [OF d ne sl])
  obtain t where "initialize_plots ?s = (None, t)"
    using ok by (cases "initialize_plots ?s") simp
  then show "fst (load_nifti (Loaded v) s) = Success"
    by (simp add: load_nifti_def)
  show "temp_lines (snd (load_nifti (Loaded v) s)) p = Some hidden_crosshair"
    by (simp add: snd_load_nifti initialize_plots_ok(2) [OF d ne sl])
qed

section \<open>The claims\<close>

text \<open>
  Claim C1, the click and crosshair inverse law: for every view and every in-range
  cursor, clicking on the pixel where the view's crosshair stands gives back the cursor
  values of the two axes the view addresses. The code does not do this on the sagittal
  view. With a volume of shape (10, 20, 30) and the cursor at x = 5, y = 3, z = 25,
  \<open>update_crosshairs\<close> puts the sagittal crosshair at pixel (16, 25); a click on exactly
  that pixel is clipped against the first two dimensions, 10 and 20, and stores y = 10
  and z = 19.
\<close>

theorem sagittal_crosshair_click_moves_cursor:
  "crosshair_lines
     (snd (update_crosshairs
        (s\<lparr> data := Some (v\<lparr> shape := (10, 20, 30) \<rparr>),
             slice_controls := (\<lambda>_. 0)(Sagittal := 5, Coronal := 3, Axial := 25),
             crosshair_lines := (\<lambda>_. Some c) \<rparr>))) Sagittal
     = Some (c\<lparr> vline_x := 16, hline_y := 25 \<rparr>)
   \<and> slice_controls
       (snd (update_cursor_position \<lparr> inaxes = Some Sagittal, xdata = 16, ydata = 25 \<rparr>
          (snd (update_crosshairs
             (s\<lparr> data := Some (v\<lparr> shape := (10, 20, 30) \<rparr>),
                  slice_controls := (\<lambda>_. 0)(Sagittal := 5, Coronal := 3, Axial := 25),
                  crosshair_lines := (\<lambda>_. Some c) \<rparr>)))))
     = (\<lambda>_. 0)(Sagittal := 5, Coronal := 10, Axial := 19)"
proof -
  let ?v = "v\<lparr> shape := (10, 20, 30) \<rparr>"
  let ?s = "s\<lparr> data := Some ?v,
             slice_controls := (\<lambda>_. 0)(Sagittal := 5, Coronal := 3, Axial := 25),
             crosshair_lines := (\<lambda>_. Some c) \<rparr>"
  have d: "data ?s = Some ?v" by simp
  have lines: "crosshair_lines (snd (update_crosshairs ?s)) Sagittal
                 = Some (c\<lparr> vline_x := 16, hline_y := 25 \<rparr>)"
    using update_crosshairs_lines [OF d, of "\<lambda>_. c" Sagittal]
    by (simp add: shape_at_def)
  have d': "data (snd (update_crosshairs ?s)) = Some ?v"
    by (simp add: update_crosshairs_keeps)
  have "slice_controls
          (snd (update_cursor_position \<lparr> inaxes = Some Sagittal, xdata = 16, ydata = 25 \<rparr>
             (snd (update_crosshairs ?s))))
        = ((\<lambda>_. 0)(Sagittal := 5, Coronal := 3, Axial := 25))(Coronal := 10, Axial := 19)"
    using cursor_after_click [OF d', of "\<lparr> inaxes = Some Sagittal, xdata = 16, ydata = 25 \<rparr>" Sagittal]
    by (simp add: update_crosshairs_keeps Let_def shape_at_def np_clip_def int_of_float_def)
  also have "\<dots> = (\<lambda>_. 0)(Sagittal := 5, Coronal := 10, Axial := 19)"
    by (rule ext) simp
  finally show ?thesis
    using lines by simp
qed

text \<open>
  Claim C2, the clamping invariant: a click or a committed entry stores, for each axis
  it sets, the attempted value clamped to that axis. The code does not do this for a
  click on the sagittal view. With a volume of shape (10, 20, 30) a click at pixel
  (15, 25) attempts y = 20 - 15 - 1 = 4 and z = 25, both inside their axes; what is
  stored is y = 10 and z = 19.
\<close>

theorem sagittal_click_stores_other_values:
  "slice_controls
     (snd (update_cursor_position \<lparr> inaxes = Some Sagittal, xdata = 15, ydata = 25 \<rparr>
             (s\<lparr> data := Some (v\<lparr> shape := (10, 20, 30) \<rparr>) \<rparr>)))
   = (slice_controls s)(Coronal := 10, Axial := 19)"
  by (simp add: cursor_after_click Let_def shape_at_def np_clip_def int_of_float_def)

text \<open>
  Claim C3, the display range. As stated, the claim equates vmin with the number
  dataMin + (brightness / 100) * (dataMax - dataMin). The program computes in binary64:
  with the voxels \<open>- 2 ^ 1023\<close> and \<open>2 ^ 1023\<close> and brightness 50 that number is 0, while
  dataMax - dataMin overflows to infinity and \<open>get_slice_display_params\<close> returns an
  infinite vmin.
\<close>

theorem display_range_overflows:
  "get_slice_display_params wide_voxels (init_viewer\<lparr> brightness_var := 50 \<rparr>)
     = Inr \<lparr> vmin = PInf, vmax = Fin (2 ^ 1023) \<rparr>
   \<and> Min (set (voxels wide_voxels))
       + (50 / 100) * (Max (set (voxels wide_voxels)) - Min (set (voxels wide_voxels))) = 0"
proof -
  have ne: "voxels wide_voxels \<noteq> []"
    by (simp add: voxels_wide_voxels)
  have mn: "Min (set (voxels wide_voxels)) = - (2 ^ 1023)"
    and mx: "Max (set (voxels wide_voxels)) = 2 ^ 1023"
    by (simp_all add: voxels_wide_voxels)
  have range: "fsub (Fin (2 ^ 1023)) (Fin (- (2 ^ 1023))) = PInf"
    by (simp add: fsub_def round64_overflow)
  have top: "round64 (2 ^ 1023) = Fin (2 ^ 1023)"
    by (rule round64_exact [OF big_in_b64(1)])
  have "get_slice_display_params wide_voxels (init_viewer\<lparr> brightness_var := 50 \<rparr>)
          = Inr \<lparr> vmin = PInf, vmax = Fin (2 ^ 1023) \<rparr>"
    using range top
    by (simp add: get_slice_display_params_def np_min_Min [OF ne] np_max_Max [OF ne] mn mx
          Let_def init_viewer_def round64_half round64_100 round64_1)
  moreover have "Min (set (voxels wide_voxels))
       + (50 / 100) * (Max (set (voxels wide_voxels)) - Min (set (voxels wide_voxels))) = 0"
    by (simp add: mn mx)
  ultimately show ?thesis by (rule conjI)
qed

text \<open>
  Claim C3 as the code has it: for a volume with at least one voxel, whatever the
  brightness and the contrast, vmin is dataMin + (brightness / 100) * (dataMax - dataMin)
  and vmax is dataMax * ((contrast + 100) / 100) with every operation the binary64 one
  (the exact result rounded to nearest, an infinity on overflow), where dataMin and
  dataMax are the least and the greatest voxel. These are the exact numbers whenever
  every intermediate exact result is a binary64 number; with brightness 50, contrast 0,
  dataMin 0 and dataMax 200 they are vmin = 100 and vmax = 200.
\<close>

theorem display_range_binary64:
  assumes "voxels v \<noteq> []"
  shows "get_slice_display_params v s =
           Inr \<lparr> vmin = fadd (Fin (Min (set (voxels v))))
                          (fmul (fdiv_100 (Fin (brightness_var s)))
                                (fsub (Fin (Max (set (voxels v)))) (Fin (Min (set (voxels v)))))),
                 vmax = fmul (Fin (Max (set (voxels v))))
                          (fdiv_100 (fadd (Fin (contrast_var s)) (Fin 100))) \<rparr>
         \<and> (brightness_var s / 100 \<in> b64
              \<and> Max (set (voxels v)) - Min (set (voxels v)) \<in> b64
              \<and> (brightness_var s / 100) * (Max (set (voxels v)) - Min (set (voxels v))) \<in> b64
              \<and> Min (set (voxels v))
                  + (brightness_var s / 100) * (Max (set (voxels v)) - Min (set (voxels v))) \<in> b64
              \<and> contrast_var s + 100 \<in> b64
              \<and> (contrast_var s + 100) / 100 \<in> b64
              \<and> Max (set (voxels v)) * ((contrast_var s + 100) / 100) \<in> b64
            \<longrightarrow> get_slice_display_params v s =
                  Inr \<lparr> vmin = Fin (Min (set (voxels v))
                                  + (brightness_var s / 100)
                                    * (Max (set (voxels v)) - Min (set (voxels v)))),
                        vmax = Fin (Max (set (voxels v)) * ((contrast_var s + 100) / 100)) \<rparr>)
         \<and> (Min (set (voxels v)) = 0 \<and> Max (set (voxels v)) = 200
              \<and> brightness_var s = 50 \<and> contrast_var s = 0
            \<longrightarrow> get_slice_display_params v s = Inr \<lparr> vmin = Fin 100, vmax = Fin 200 \<rparr>)"
proof -
  let ?mn = "Min (set (voxels v))" and ?mx = "Max (set (voxels v))"
  let ?b = "brightness_var s / 100" and ?c = "(contrast_var s + 100) / 100"
  have formula: "get_slice_display_params v s =
           Inr \<lparr> vmin = fadd (Fin ?mn) (fmul (fdiv_100 (Fin (brightness_var s)))
                                            (fsub (Fin ?mx) (Fin ?mn))),
                 vmax = fmul (Fin ?mx) (fdiv_100 (fadd (Fin (contrast_var s)) (Fin 100))) \<rparr>"
    using assms by (simp add: get_slice_display_params_def np_min_Min np_max_Max Let_def)
  have exact: "get_slice_display_params v s =
                 Inr \<lparr> vmin = Fin (?mn + ?b * (?mx - ?mn)), vmax = Fin (?mx * ?c) \<rparr>"
    if b: "?b \<in> b64" and r: "?mx - ?mn \<in> b64" and p: "?b * (?mx - ?mn) \<in> b64"
      and m: "?mn + ?b * (?mx - ?mn) \<in> b64" and c0: "contrast_var s + 100 \<in> b64"
      and c: "?c \<in> b64" and x: "?mx * ?c \<in> b64"
  proof -
    have 1: "fdiv_100 (Fin (brightness_var s)) = Fin ?b"
      using round64_exact [OF b] by simp
    have 2: "fsub (Fin ?mx) (Fin ?mn) = Fin (?mx - ?mn)"
      using round64_exact [OF r] by (simp add: fsub_def)
    have 3: "fmul (Fin ?b) (Fin (?mx - ?mn)) = Fin (?b * (?mx - ?mn))"
      using round64_exact [OF p] by simp
    have 4: "fadd (Fin ?mn) (Fin (?b * (?mx - ?mn))) = Fin (?mn + ?b * (?mx - ?mn))"
      using round64_exact [OF m] by simp
    have 5: "fadd (Fin (contrast_var s)) (Fin 100) = Fin (contrast_var s + 100)"
      using round64_exact [OF c0] by simp
    have 6: "fdiv_100 (Fin (contrast_var s + 100)) = Fin ?c"
      using round64_exact [OF c] by simp
    have 7: "fmul (Fin ?mx) (Fin ?c) = Fin (?mx * ?c)"
      using round64_exact [OF x] by simp
    show ?thesis
      by (simp only: formula 1 2 3 4 5 6 7)
  qed
  have scenario: "get_slice_display_params v s = Inr \<lparr> vmin = Fin 100, vmax = Fin 200 \<rparr>"
    if "?mn = 0" and "?mx = 200" and "brightness_var s = 50" and "contrast_var s = 0"
    using that
    by (simp add: formula fsub_def round64_half round64_100 round64_200 round64_1)
  from formula exact scenario show ?thesis
    by blast
qed

theorem display_range_binary64_witness:
  "voxels two_voxels \<noteq> []
   \<and> Min (set (voxels two_voxels)) = 0 \<and> Max (set (voxels two_voxels)) = 200
   \<and> (50::real) / 100 \<in> b64 \<and> (200::real) - 0 \<in> b64 \<and> (50::real) / 100 * (200 - 0) \<in> b64
   \<and> (0::real) + 50 / 100 * (200 - 0) \<in> b64 \<and> (0::real) + 100 \<in> b64
   \<and> ((0::real) + 100) / 100 \<in> b64 \<and> (200::real) * ((0 + 100) / 100) \<in> b64
   \<and> get_slice_display_params two_voxels (init_viewer\<lparr> brightness_var := 50 \<rparr>)
       = Inr \<lparr> vmin = Fin 100, vmax = Fin 200 \<rparr>"
proof -
  have ints: "(1::real) \<in> b64" "(100::real) \<in> b64" "(200::real) \<in> b64"
    using int_in_b64 [of 1] int_in_b64 [of 100] int_in_b64 [of 200] by simp_all
  have ne: "voxels two_voxels \<noteq> []"
    by (simp add: voxels_two_voxels)
  have "get_slice_display_params two_voxels (init_viewer\<lparr> brightness_var := 50 \<rparr>)
          = Inr \<lparr> vmin = Fin 100, vmax = Fin 200 \<rparr>"
    using display_range_binary64 [OF ne, of "init_viewer\<lparr> brightness_var := 50 \<rparr>",
        THEN conjunct2, THEN conjunct2]
    by (simp add: voxels_two_voxels init_viewer_def)
  then show ?thesis
    using ints half_in_b64 by (simp add: voxels_two_voxels)
qed

text \<open>
  Claim C4, the axial click scenario: with a volume of shape (10, 20, 30), a click on the
  axial view at pixel (3, 5) sets x (the sagittal slice) to 3 and y (the coronal slice)
  to 14, and leaves every other slice variable, z among them, as it was.
\<close>

theorem axial_click_scenario:
  "slice_controls
     (snd (on_click \<lparr> inaxes = Some Axial, xdata = 3, ydata = 5 \<rparr>
             (s\<lparr> data := Some (v\<lparr> shape := (10, 20, 30) \<rparr>) \<rparr>)))
   = (slice_controls s)(Sagittal := 3, Coronal := 14)"
  by (simp add: on_click_def cursor_after_click Let_def shape_at_def np_clip_def int_of_float_def)

text \<open>
  Claim C5, an entry that is not an integer: when the text of the entry of a plane does
  not parse, \<open>on_entry_change\<close> raises nothing, puts the decimal text of the plane's slice
  variable back into that entry and changes nothing else. The example of the claim, the
  text abc over a slice variable of 7, follows.
\<close>

theorem entry_parse_failure:
  assumes "parse (slice_entries s p) = None"
  shows "on_entry_change parse p s =
           (None, s\<lparr> slice_entries := (slice_entries s)(p := str_int (slice_controls s p)) \<rparr>)"
  using assms by (simp add: on_entry_change_def revert_entry_def)

theorem entry_parse_failure_witness:
  "parse_int ''abc'' = None
   \<and> on_entry_change parse_int Coronal
        (init_viewer\<lparr> slice_controls := (\<lambda>_. 7), slice_entries := (\<lambda>_. ''abc'') \<rparr>)
      = (None, init_viewer\<lparr> slice_controls := (\<lambda>_. 7),
                            slice_entries := (\<lambda>_. ''abc'')(Coronal := ''7'') \<rparr>)"
  using entry_parse_failure [of parse_int
      "init_viewer\<lparr> slice_controls := (\<lambda>_. 7), slice_entries := (\<lambda>_. ''abc'') \<rparr>" Coronal]
  by (simp add: parse_int_def parse_nat_def digit_val_def str_int_7)

text \<open>
  Claim C6, the axis a view does not address: the slice variable of the view under the
  pointer (z for the axial view, x for the sagittal view, y for the coronal view) is the
  same before and after \<open>update_cursor_position\<close>, and so after a click and after a
  motion event on that view.
\<close>

theorem click_keeps_view_axis:
  assumes "inaxes ev = Some V"
  shows "slice_controls (snd (update_cursor_position ev s)) V = slice_controls s V
       \<and> slice_controls (snd (on_click ev s)) V = slice_controls s V
       \<and> slice_controls (snd (on_motion ev s)) V = slice_controls s V"
proof -
  have kept: "slice_controls (snd (update_cursor_position ev s)) V = slice_controls s V"
    by (rule update_cursor_position_keeps_axis [OF assms])
  have hover: "slice_controls (snd (update_temp_crosshairs ev s)) = slice_controls s"
    by (subst update_temp_crosshairs_frame) simp
  have click: "slice_controls (snd (on_click ev s)) V = slice_controls s V"
    using kept by (simp add: on_click_def update_cursor_position_pressed)
  have motion: "slice_controls (snd (on_motion ev s)) V = slice_controls s V"
    using kept hover by (simp add: on_motion_def)
  from kept click motion show ?thesis by simp
qed

theorem click_keeps_view_axis_witness:
  "inaxes \<lparr> inaxes = Some Sagittal, xdata = 1, ydata = 2 \<rparr> = Some Sagittal
   \<and> slice_controls
        (snd (on_click \<lparr> inaxes = Some Sagittal, xdata = 1, ydata = 2 \<rparr>
                (init_viewer\<lparr> data := Some two_voxels \<rparr>))) Sagittal = 0"
  using click_keeps_view_axis [of "\<lparr> inaxes = Some Sagittal, xdata = 1, ydata = 2 \<rparr>" Sagittal
      "init_viewer\<lparr> data := Some two_voxels \<rparr>"]
  by (simp add: init_viewer_def)

text \<open>
  Claim C7, neutral brightness and contrast. As stated, for every volume brightness 0
  and contrast 0 give vmin = dataMin. With the voxels \<open>- 2 ^ 1023\<close> and \<open>2 ^ 1023\<close> the
  range dataMax - dataMin overflows to infinity, 0 times infinity is not-a-number, and
  so is vmin.
\<close>

theorem display_range_neutral_nan:
  "get_slice_display_params wide_voxels init_viewer = Inr \<lparr> vmin = NaN, vmax = Fin (2 ^ 1023) \<rparr>"
proof -
  have ne: "voxels wide_voxels \<noteq> []"
    by (simp add: voxels_wide_voxels)
  have mn: "Min (set (voxels wide_voxels)) = - (2 ^ 1023)"
    and mx: "Max (set (voxels wide_voxels)) = 2 ^ 1023"
    by (simp_all add: voxels_wide_voxels)
  have range: "fsub (Fin (2 ^ 1023)) (Fin (- (2 ^ 1023))) = PInf"
    by (simp add: fsub_def round64_overflow)
  have top: "round64 (2 ^ 1023) = Fin (2 ^ 1023)"
    by (rule round64_exact [OF big_in_b64(1)])
  show ?thesis
    using range top
    by (simp add: get_slice_display_params_def np_min_Min [OF ne] np_max_Max [OF ne] mn mx
          Let_def init_viewer_def round64_0 round64_100 round64_1)
qed

text \<open>
  Claim C7 as the code has it: for a volume with at least one voxel, all voxels binary64
  numbers, whose range dataMax - dataMin is finite in binary64, brightness 0 and
  contrast 0 give vmin = dataMin and vmax = dataMax.
\<close>

theorem display_range_neutral:
  assumes "voxels v \<noteq> []" and "set (voxels v) \<subseteq> b64"
    and "is_finite (fsub (Fin (Max (set (voxels v)))) (Fin (Min (set (voxels v)))))"
    and "brightness_var s = 0" and "contrast_var s = 0"
  shows "get_slice_display_params v s =
           Inr \<lparr> vmin = Fin (Min (set (voxels v))), vmax = Fin (Max (set (voxels v))) \<rparr>"
proof -
  let ?mn = "Min (set (voxels v))" and ?mx = "Max (set (voxels v))"
  have "?mn \<in> set (voxels v)" and "?mx \<in> set (voxels v)"
    using assms(1) by simp_all
  then have mn: "round64 ?mn = Fin ?mn" and mx: "round64 ?mx = Fin ?mx"
    using assms(2) by (auto intro: round64_exact)
  obtain r where r: "fsub (Fin ?mx) (Fin ?mn) = Fin r"
    using assms(3) by (cases "fsub (Fin ?mx) (Fin ?mn)") simp_all
  show ?thesis
    using assms(1,4,5) r mn mx
    by (simp add: get_slice_display_params_def np_min_Min np_max_Max Let_def
          round64_0 round64_100 round64_1)
qed

theorem display_range_neutral_witness:
  "voxels two_voxels \<noteq> [] \<and> set (voxels two_voxels) \<subseteq> b64
   \<and> is_finite (fsub (Fin (Max (set (voxels two_voxels)))) (Fin (Min (set (voxels two_voxels)))))
   \<and> brightness_var init_viewer = 0 \<and> contrast_var init_viewer = 0
   \<and> get_slice_display_params two_voxels init_viewer = Inr \<lparr> vmin = Fin 0, vmax = Fin 200 \<rparr>"
proof -
  have ints: "(0::real) \<in> b64" "(200::real) \<in> b64"
    using int_in_b64 [of 0] int_in_b64 [of 200] by simp_all
  show ?thesis
    using display_range_neutral [of two_voxels init_viewer] ints
    by (simp add: voxels_two_voxels init_viewer_def fsub_def round64_200)
qed

text \<open>
  Claim C8, hovering and leaving: a motion event with no button held leaves the three
  slice variables as they are and updates only the temporary crosshair, and once the
  pointer has left a view the temporary crosshair is hidden. The first part holds of
  \<open>on_motion\<close>, as shown above. The code does not do the second: \<open>on_axes_leave\<close> clears
  \<open>mouse_over_axes\<close>, which nothing reads, and redraws what has not changed; it hides
  nothing. After a volume is loaded, a hover over the axial view followed by the pointer
  leaving it, the temporary crosshair of the axial view is still shown.
\<close>

theorem overlay_stays_after_leave:
  "temp_lines
     (snd (on_axes_leave \<lparr> inaxes = Some Axial, xdata = 0, ydata = 0 \<rparr>
        (snd (on_motion \<lparr> inaxes = Some Axial, xdata = 0, ydata = 0 \<rparr>
           (snd (load_nifti (Loaded two_voxels) init_viewer)))))) Axial
   = Some \<lparr> vline_x = 0, hline_y = 0, vline_visible = True, hline_visible = True \<rparr>"
proof -
  let ?s = "snd (load_nifti (Loaded two_voxels) init_viewer)"
  let ?ev = "\<lparr> inaxes = Some Axial, xdata = 0, ydata = 0 \<rparr>"
  have sh: "shape two_voxels = (1, 1, 2)"
    by (simp add: two_voxels_def)
  have tl: "\<forall>p. temp_lines ?s p \<noteq> None"
    using load_nifti_ok(2) [OF sh, of init_viewer] by simp
  have d: "data ?s \<noteq> None"
    by (simp add: load_nifti_fields)
  have m: "\<not> mouse_pressed ?s"
    by (simp add: load_nifti_fields init_viewer_def)
  have "temp_lines (snd (on_motion ?ev ?s)) Axial =
          Some \<lparr> vline_x = 0, hline_y = 0, vline_visible = True, hline_visible = True \<rparr>"
    using hover_shows [OF d m _ tl, of ?ev Axial] by simp
  then show ?thesis
    by (simp add: on_axes_leave_def redraw_keeps)
qed

text \<open>
  Claim C9, slices are never indexed out of bounds: after any sequence of events on a
  loaded volume the axial index is below the third dimension. The code does not keep
  this. After a volume of shape (10, 30, 20) is loaded, a click on the coronal view at
  data coordinates (5, 25) is clipped against the second dimension, 30, instead of the
  third, 20: the axial slice variable becomes 25 and the redraw of that very click
  raises IndexError at \<open>data[:, :, 25]\<close>.
\<close>

theorem click_indexes_past_axial:
  "fst (on_click \<lparr> inaxes = Some Coronal, xdata = 5, ydata = 25 \<rparr>
          (snd (load_nifti (Loaded (v\<lparr> shape := (10, 30, 20) \<rparr>)) s)))
     = Some IndexError
   \<and> slice_controls
       (snd (on_click \<lparr> inaxes = Some Coronal, xdata = 5, ydata = 25 \<rparr>
               (snd (load_nifti (Loaded (v\<lparr> shape := (10, 30, 20) \<rparr>)) s)))) Axial
     = 25"
proof -
  let ?v = "v\<lparr> shape := (10, 30, 20) \<rparr>"
  let ?s = "snd (load_nifti (Loaded ?v) s)"
  let ?ev = "\<lparr> inaxes = Some Coronal, xdata = 5, ydata = 25 \<rparr>"
  let ?t = "set_slice Axial 25 (set_slice Sagittal 5 (?s\<lparr> mouse_pressed := True \<rparr>))"
  have d: "data ?s = Some ?v"
    by (simp add: load_nifti_fields)
  have sh: "shape ?v = (10, 30, 20)"
    by simp
  have clip: "int_of_float (np_clip 5 0 (shape_at ?v 0 - 1)) = 5"
      "int_of_float (np_clip 25 0 (shape_at ?v 1 - 1)) = 25"
    by (simp_all add: shape_at_def np_clip_def int_of_float_def)
  have click: "on_click ?ev ?s = and_then (update_image_data ?t) update_crosshairs"
    using d clip by (simp add: on_click_def update_cursor_position_def Let_def)
  have dt: "data ?t = Some ?v"
    using d by (simp add: set_slice_def)
  have "fst (update_image_data ?t) = Some IndexError"
    by (rule update_image_data_axial_beyond [OF dt sh]) (simp_all add: set_slice_def)
  then have "fst (on_click ?ev ?s) = Some IndexError"
    by (simp add: click fst_and_then)
  moreover have "slice_controls (snd (on_click ?ev ?s)) Axial = 25"
    by (simp add: click redraw_keeps set_slice_def)
  ultimately show ?thesis by simp
qed

text \<open>
  Claim C10, the state after loading: when the control frame holds a scale for each
  slice variable, loading a volume of shape (nx, ny, nz) sets the sagittal, coronal and
  axial slice variables to (nx - 1) div 2, (ny - 1) div 2 and (nz - 1) div 2, and the
  ranges of their scales to 0 .. nx - 1, 0 .. ny - 1 and 0 .. nz - 1.
\<close>

theorem load_initializes:
  assumes "shape v = (nx, ny, nz)"
    and "\<forall>p. scale_range (SliceVar p) (control_frame s) \<noteq> None"
  shows "slice_controls (snd (load_nifti (Loaded v) s)) Sagittal = (int nx - 1) div 2
       \<and> slice_controls (snd (load_nifti (Loaded v) s)) Coronal = (int ny - 1) div 2
       \<and> slice_controls (snd (load_nifti (Loaded v) s)) Axial = (int nz - 1) div 2
       \<and> scale_range (SliceVar Sagittal) (control_frame (snd (load_nifti (Loaded v) s)))
           = Some (0, int nx - 1)
       \<and> scale_range (SliceVar Coronal) (control_frame (snd (load_nifti (Loaded v) s)))
           = Some (0, int ny - 1)
       \<and> scale_range (SliceVar Axial) (control_frame (snd (load_nifti (Loaded v) s)))
           = Some (0, int nz - 1)"
  using assms by (simp add: load_nifti_fields shape_at_def)

theorem load_initializes_witness:
  "shape blank_volume = (10, 20, 30)
   \<and> (\<forall>p. scale_range (SliceVar p) (control_frame init_viewer) \<noteq> None)
   \<and> fst (load_nifti (Loaded blank_volume) init_viewer) = Success
   \<and> slice_controls (snd (load_nifti (Loaded blank_volume) init_viewer)) Sagittal = 4
   \<and> slice_controls (snd (load_nifti (Loaded blank_volume) init_viewer)) Coronal = 9
   \<and> slice_controls (snd (load_nifti (Loaded blank_volume) init_viewer)) Axial = 14
   \<and> scale_range (SliceVar Sagittal)
        (control_frame (snd (load_nifti (Loaded blank_volume) init_viewer))) = Some (0, 9)
   \<and> scale_range (SliceVar Coronal)
        (control_frame (snd (load_nifti (Loaded blank_volume) init_viewer))) = Some (0, 19)
   \<and> scale_range (SliceVar Axial)
        (control_frame (snd (load_nifti (Loaded blank_volume) init_viewer))) = Some (0, 29)"
proof -
  have sh: "shape blank_volume = (10, 20, 30)"
    by (simp add: blank_volume_def)
  have sc: "\<forall>p. scale_range (SliceVar p) (control_frame init_viewer) \<noteq> None"
  proof
    fix p show "scale_range (SliceVar p) (control_frame init_viewer) \<noteq> None"
      by (cases p) (simp_all add: init_viewer_def create_controls_def)
  qed
  have ok: "fst (load_nifti (Loaded blank_volume) init_viewer) = Success"
    by (rule load_nifti_ok(1) [OF sh]) simp_all
  show ?thesis
    using load_initializes [OF sh sc] sh sc ok by simp
qed

end
